theory Spec2Isabelle
  imports Main
begin

section \<open>Python library values used by pixorter\<close>

text \<open>
  Strings are \<^typ>\<open>string\<close>; every character is taken to be ASCII, so that
  \<open>str.lower\<close> only moves \<open>A\<close>..\<open>Z\<close>. Python integers are \<^typ>\<open>int\<close>.
\<close>

subsection \<open>Exceptions\<close>

datatype exn =
    NoMatchException
  | TypeError
  | ValueError
  | OverflowError
  | KeyError
  | IndexError
  | AttributeError
  | NameError
  | JSONDecodeError
  | FFmpegError
  | UnidentifiedImageError
  | FileNotFoundError

text \<open>
  A computation that may raise is a value of \<open>exn + 'a\<close>; \<open>and_then\<close> runs the
  next statement on the result, unless an exception is on its way.
\<close>

definition and_then :: "exn + 'a \<Rightarrow> ('a \<Rightarrow> exn + 'b) \<Rightarrow> exn + 'b" where
  "and_then r f = (case r of Inl e \<Rightarrow> Inl e | Inr v \<Rightarrow> f v)"

subsection \<open>\<open>str(int)\<close>, as the f-strings of \<open>get_output_path\<close> format their fields\<close>

definition digit_char :: "nat \<Rightarrow> char" where
  "digit_char n = ''0123456789'' ! n"

function str_nat :: "nat \<Rightarrow> string" where
  "str_nat n = (if n < 10 then [digit_char n] else str_nat (n div 10) @ [digit_char (n mod 10)])"
  by pat_completeness auto
termination
  by (relation "measure id") auto

declare str_nat.simps [simp del]

definition str_int :: "int \<Rightarrow> string" where
  "str_int i = (if i < 0 then CHR ''-'' # str_nat (nat (- i)) else str_nat (nat i))"

subsection \<open>\<open>str.lower\<close>, \<open>str.rfind\<close>, \<open>str.split\<close>\<close>

definition lower_char :: "char \<Rightarrow> char" where
  "lower_char c =
     (case map_of (zip ''ABCDEFGHIJKLMNOPQRSTUVWXYZ'' ''abcdefghijklmnopqrstuvwxyz'') c of
        Some l \<Rightarrow> l
      | None \<Rightarrow> c)"

definition lower :: "string \<Rightarrow> string" where
  "lower s = map lower_char s"

text \<open>\<open>s.rfind(c)\<close>: the index of the last occurrence of \<open>c\<close>, or \<open>-1\<close>.\<close>

fun rfind :: "char \<Rightarrow> string \<Rightarrow> int" where
  "rfind c [] = - 1"
| "rfind c (x # xs) =
     (let r = rfind c xs in if 0 \<le> r then r + 1 else if x = c then 0 else - 1)"

text \<open>\<open>s.split(c)\<close> for a one-character separator: never the empty list.\<close>

fun split :: "char \<Rightarrow> string \<Rightarrow> string list" where
  "split c [] = [[]]"
| "split c (x # xs) =
     (if x = c then [] # split c xs
      else (case split c xs of [] \<Rightarrow> [[x]] | w # ws \<Rightarrow> (x # w) # ws))"

subsection \<open>\<open>int(str)\<close>\<close>

text \<open>
  \<open>int(s)\<close> for an ASCII string: surrounding white space (space, tab, line feed,
  vertical tab, form feed, carriage return) is stripped, one sign is allowed, then
  decimal digits, with single underscores between digits. Anything else raises
  \<open>ValueError\<close>, and so do more than 4300 digits, the default limit of the
  interpreter on the conversion.
\<close>

definition is_digit :: "char \<Rightarrow> bool" where
  "is_digit c = (c \<in> set ''0123456789'')"

definition is_space :: "char \<Rightarrow> bool" where
  "is_space c =
     (c \<in> set [CHR '' '', CHR 0x09, CHR 0x0A, CHR 0x0B, CHR 0x0C, CHR 0x0D])"

definition strip :: "string \<Rightarrow> string" where
  "strip s = rev (dropWhile is_space (rev (dropWhile is_space s)))"

fun digits_ok :: "string \<Rightarrow> bool" where
  "digits_ok [] = False"
| "digits_ok [c] = is_digit c"
| "digits_ok (c # d # r) =
     (is_digit c \<and> (if d = CHR ''_'' then digits_ok r else digits_ok (d # r)))"

definition digit_val :: "char \<Rightarrow> int" where
  "digit_val c = int (length (takeWhile (\<lambda>d. d \<noteq> c) ''0123456789''))"

definition digits_value :: "string \<Rightarrow> int" where
  "digits_value body =
     fold (\<lambda>c acc. if c = CHR ''_'' then acc else 10 * acc + digit_val c) body 0"

definition py_int :: "string \<Rightarrow> exn + int" where
  "py_int s =
     (let t = strip s;
          neg = (t \<noteq> [] \<and> hd t = CHR ''-'');
          body = (if t \<noteq> [] \<and> (hd t = CHR ''-'' \<or> hd t = CHR ''+'') then tl t else t)
      in if digits_ok body \<and> length (filter is_digit body) \<le> 4300
         then Inr (if neg then - digits_value body else digits_value body)
         else Inl ValueError)"

subsection \<open>\<open>pathlib\<close> paths (POSIX flavour)\<close>

text \<open>
  A \<open>Path\<close> is the tuple of its \<open>parts\<close>; an absolute path has \<open>/\<close> as first part.
  \<open>Path s\<close> parses a string: empty components and \<open>.\<close> components are dropped.
  (A path beginning with exactly two slashes keeps both in Python; no string built
  by this program begins with a slash.)
\<close>

type_synonym path = "string list"

definition Path :: "string \<Rightarrow> path" where
  "Path s =
     (if s \<noteq> [] \<and> hd s = CHR ''/'' then [''/''] else []) @
     filter (\<lambda>p. p \<noteq> [] \<and> p \<noteq> ''.'') (split CHR ''/'' s)"

text \<open>\<open>p / s\<close> with a string on the right: an absolute right operand replaces \<open>p\<close>.\<close>

definition joinpath :: "path \<Rightarrow> string \<Rightarrow> path" where
  "joinpath p s = (let q = Path s in if q \<noteq> [] \<and> hd q = ''/'' then q else p @ q)"

definition name :: "path \<Rightarrow> string" where
  "name p = (if p = [] \<or> p = [''/''] then [] else last p)"

text \<open>
  \<open>PurePath.suffix\<close>: from the last dot of the name, unless that dot is the first or
  the last character of the name.
\<close>

definition suffix :: "path \<Rightarrow> string" where
  "suffix p =
     (let n = name p; i = rfind CHR ''.'' n
      in if 0 < i \<and> i < int (length n) - 1 then drop (nat i) n else [])"

text \<open>\<open>str(p)\<close> of a relative path: its parts joined by slashes.\<close>

fun str_path :: "path \<Rightarrow> string" where
  "str_path [] = ''.''"
| "str_path [x] = x"
| "str_path (x # xs) = (if x = ''/'' then x @ str_path xs else x @ ''/'' @ str_path xs)"

subsection \<open>\<open>datetime\<close>\<close>

text \<open>
  A naive \<open>datetime\<close>. Both evidence sources build it from at most the six fields
  below, so \<open>microsecond\<close> is always 0 and is left out.
\<close>

record datetime =
  year :: int
  month :: int
  day :: int
  hour :: int
  minute :: int
  second :: int

definition date :: "datetime \<Rightarrow> int \<times> int \<times> int" where
  "date d = (year d, month d, day d)"

definition is_leap :: "int \<Rightarrow> bool" where
  "is_leap y = (y mod 4 = 0 \<and> (y mod 100 \<noteq> 0 \<or> y mod 400 = 0))"

definition days_in_month :: "int \<Rightarrow> int \<Rightarrow> int" where
  "days_in_month y m =
     (if m = 2 then (if is_leap y then 29 else 28)
      else if m \<in> {4, 6, 9, 11} then 30
      else 31)"

text \<open>
  The constructor called with keyword arguments, \<open>datetime(**parts)\<close>. The
  arguments are taken in the order of the signature: one that is present must fit a C
  \<open>int\<close> (\<open>OverflowError\<close>), one of \<open>year\<close>, \<open>month\<close>, \<open>day\<close> that is absent
  is a \<open>TypeError\<close>, the others default to 0. Fields out of range are a
  \<open>ValueError\<close>.
\<close>

definition c_int :: "int \<Rightarrow> exn + int" where
  "c_int v = (if - 2147483648 \<le> v \<and> v \<le> 2147483647 then Inr v else Inl OverflowError)"

definition required_arg :: "(string \<times> int) list \<Rightarrow> string \<Rightarrow> exn + int" where
  "required_arg parts k = (case map_of parts k of None \<Rightarrow> Inl TypeError | Some v \<Rightarrow> c_int v)"

definition optional_arg :: "(string \<times> int) list \<Rightarrow> string \<Rightarrow> exn + int" where
  "optional_arg parts k = (case map_of parts k of None \<Rightarrow> Inr 0 | Some v \<Rightarrow> c_int v)"

definition valid_datetime :: "datetime \<Rightarrow> bool" where
  "valid_datetime d =
     (1 \<le> year d \<and> year d \<le> 9999 \<and> 1 \<le> month d \<and> month d \<le> 12 \<and>
      1 \<le> day d \<and> day d \<le> days_in_month (year d) (month d) \<and>
      0 \<le> hour d \<and> hour d \<le> 23 \<and> 0 \<le> minute d \<and> minute d \<le> 59 \<and>
      0 \<le> second d \<and> second d \<le> 59)"

definition new_datetime :: "(string \<times> int) list \<Rightarrow> exn + datetime" where
  "new_datetime parts =
     and_then (required_arg parts ''year'') (\<lambda>y.
     and_then (required_arg parts ''month'') (\<lambda>mo.
     and_then (required_arg parts ''day'') (\<lambda>d.
     and_then (optional_arg parts ''hour'') (\<lambda>h.
     and_then (optional_arg parts ''minute'') (\<lambda>mi.
     and_then (optional_arg parts ''second'') (\<lambda>s.
       (let dt = \<lparr>year = y, month = mo, day = d, hour = h, minute = mi, second = s\<rparr>
        in if valid_datetime dt then Inr dt else Inl ValueError)))))))"

subsection \<open>JSON values, as \<open>json.loads\<close> returns them\<close>

text \<open>
  An object is a dictionary with string keys, kept as an association list read by
  \<^const>\<open>map_of\<close>. Floating-point numbers play no part here and share \<open>JNumber\<close>.
\<close>

datatype json =
    JNull
  | JBool bool
  | JNumber int
  | JString string
  | JArray "json list"
  | JObject "(string \<times> json) list"

text \<open>\<open>v[k]\<close> with a string key.\<close>

fun getitem_str :: "json \<Rightarrow> string \<Rightarrow> exn + json" where
  "getitem_str (JObject kvs) k = (case map_of kvs k of None \<Rightarrow> Inl KeyError | Some v \<Rightarrow> Inr v)"
| "getitem_str v k = Inl TypeError"

text \<open>\<open>v[0]\<close>. No JSON object has the integer 0 among its keys.\<close>

fun getitem_0 :: "json \<Rightarrow> exn + json" where
  "getitem_0 (JArray xs) = (case xs of [] \<Rightarrow> Inl IndexError | x # _ \<Rightarrow> Inr x)"
| "getitem_0 (JString s) = (case s of [] \<Rightarrow> Inl IndexError | c # _ \<Rightarrow> Inr (JString [c]))"
| "getitem_0 (JObject kvs) = Inl KeyError"
| "getitem_0 v = Inl TypeError"

subsection \<open>Logging\<close>

text \<open>
  A logging call appends one record to the log. A record is the level and the
  message template; the arguments formatted into the template are left out.
\<close>

datatype level = DEBUG | INFO | WARNING | ERROR

type_synonym log = "(level \<times> string) list"

definition warnings :: "log \<Rightarrow> log" where
  "warnings lg = filter (\<lambda>r. fst r = WARNING) lg"

subsection \<open>What lies outside the repository\<close>

text \<open>
  The calls whose results depend on the files read or on a library that is not
  re-implemented here are fields of an environment.
  \<^item> \<open>re_search regex s\<close> is \<open>re.search(regex, s)\<close>: \<open>None\<close> or a match object. A
    match object is its \<open>group\<close> method: \<open>IndexError\<close> for a name the pattern does not
    define, \<open>None\<close> for a group that took no part in the match, else the matched text.
  \<^item> \<open>strptime s format\<close> is \<open>datetime.strptime(s, format)\<close>; it raises
    \<open>ValueError\<close> when \<open>s\<close> does not fit.
  \<^item> \<open>ExifTags_TAGS\<close> is the items of PIL's table \<open>ExifTags.TAGS\<close>, in order.
  \<^item> \<open>open_image p\<close> is \<open>PIL.Image.open(p)\<close>; the image is the result of its
    \<open>getexif()\<close>, a dictionary from tag ids to values (taken to be strings) or \<open>None\<close>.
  \<^item> \<open>ffmpeg_imported\<close> tells whether the guarded import of lines 19-22 succeeded;
    \<open>ffprobe_execute p\<close> is the output of the probe on \<open>p\<close> or the error it raises;
    \<open>json_loads\<close> is \<open>json.loads\<close>.
\<close>

type_synonym match = "string \<Rightarrow> exn + string option"

type_synonym exif = "nat \<Rightarrow> string option"

record Image =
  getexif :: "exif option"

record env =
  re_search :: "string \<Rightarrow> string \<Rightarrow> match option"
  strptime :: "string \<Rightarrow> string \<Rightarrow> exn + datetime"
  ExifTags_TAGS :: "(nat \<times> string) list"
  open_image :: "path \<Rightarrow> exn + Image"
  ffmpeg_imported :: bool
  ffprobe_execute :: "path \<Rightarrow> exn + string"
  json_loads :: "string \<Rightarrow> exn + json"

section \<open>\<open>globals.py\<close>\<close>

text \<open>
  \<open>globals.py\<close> is not among the sources: its three collections are
  parameters of every function that reads them. A filename pattern is kept as its
  source text.
\<close>

record globals =
  IMAGE_EXTENSIONS :: "string list"
  VIDEO_EXTENSIONS :: "string list"
  FILENAME_REGEXES :: "string list"

section \<open>\<open>date_extract.py\<close>\<close>

text \<open>
  \<open>DATETIME_TAGS\<close> (lines 27-31): a dictionary from the three tag names to their
  ids, filled in the order of PIL's table; storing under a key already present keeps
  the key's place.
\<close>

fun dict_set :: "('k \<times> 'v) list \<Rightarrow> 'k \<Rightarrow> 'v \<Rightarrow> ('k \<times> 'v) list" where
  "dict_set [] k v = [(k, v)]"
| "dict_set ((k', v') # kvs) k v =
     (if k' = k then (k, v) # kvs else (k', v') # dict_set kvs k v)"

definition DATETIME_TAGS :: "env \<Rightarrow> (string \<times> nat) list" where
  "DATETIME_TAGS env =
     fold (\<lambda>(id, name) d. dict_set d name id)
       (filter (\<lambda>(id, name). name \<in> set [''DateTime'', ''DateTimeOriginal'', ''DateTimeDigitized''])
          (ExifTags_TAGS env))
       []"

subsection \<open>\<open>get_date_from_filename\<close>\<close>

text \<open>The \<open>for\<close> loop of lines 40-44: the first pattern that matches, if any.\<close>

fun first_match :: "env \<Rightarrow> string list \<Rightarrow> string \<Rightarrow> match option" where
  "first_match env [] filename = None"
| "first_match env (regex # regexes) filename =
     (case re_search env regex filename of
        Some m \<Rightarrow> Some m
      | None \<Rightarrow> first_match env regexes filename)"

text \<open>A string or \<open>None\<close> in a condition: \<open>None\<close> and the empty string are false.\<close>

definition truthy :: "string option \<Rightarrow> bool" where
  "truthy v = (case v of None \<Rightarrow> False | Some s \<Rightarrow> s \<noteq> [])"

text \<open>
  The dictionary comprehension of lines 49-53 over the keys still to visit: for each
  key the condition \<open>match.group(k)\<close> first, then \<open>int(match.group(k))\<close>.
\<close>

fun datetime_parts :: "match \<Rightarrow> string list \<Rightarrow> exn + (string \<times> int) list" where
  "datetime_parts m [] = Inr []"
| "datetime_parts m (k # ks) =
     and_then (m k) (\<lambda>grp.
       case grp of
         None \<Rightarrow> datetime_parts m ks
       | Some s \<Rightarrow>
           if s = [] then datetime_parts m ks
           else and_then (py_int s) (\<lambda>v.
                and_then (datetime_parts m ks) (\<lambda>rest. Inr ((k, v) # rest))))"

definition get_date_from_filename :: "globals \<Rightarrow> env \<Rightarrow> string \<Rightarrow> exn + datetime" where
  "get_date_from_filename g env filename =
     (case first_match env (FILENAME_REGEXES g) filename of
        None \<Rightarrow> Inl NoMatchException
      | Some m \<Rightarrow>
          and_then
            (datetime_parts m [''year'', ''month'', ''day'', ''hour'', ''minute'', ''second''])
            new_datetime)"

subsection \<open>\<open>get_date_from_video_metadata\<close>\<close>

text \<open>
  Line 59 builds the probe outside the \<open>try\<close>: when the import of \<open>ffmpeg\<close>
  failed, the name \<open>FFmpeg\<close> is unbound.
\<close>

definition get_date_from_video_metadata :: "env \<Rightarrow> path \<Rightarrow> (exn + datetime) \<times> log" where
  "get_date_from_video_metadata env p =
     (if \<not> ffmpeg_imported env then (Inl NameError, [])
      else
        (case and_then (ffprobe_execute env p) (\<lambda>out.
              and_then (json_loads env out) (\<lambda>media.
              and_then (getitem_str media ''streams'') (\<lambda>streams.
              and_then (getitem_0 streams) (\<lambda>stream.
              and_then (getitem_str stream ''tags'') (\<lambda>tags.
              getitem_str tags ''creation_time''))))) of
           Inl exc \<Rightarrow>
             if exc = KeyError \<or> exc = JSONDecodeError \<or> exc = FFmpegError
             then (Inl NoMatchException,
                   [(ERROR, ''Failed to get video metadata ! for %s. Error: %s'')])
             else (Inl exc, [])
         | Inr (JString datetime_str) \<Rightarrow>
             (case strptime env (hd (split CHR ''.'' datetime_str)) ''%Y-%m-%dT%H:%M:%S'' of
                Inr d \<Rightarrow> (Inr d, [])
              | Inl e \<Rightarrow>
                  if e = ValueError
                  then (Inl NoMatchException,
                        [(WARNING, ''Invalid date found in video metadata ! (%s). Ignoring...'')])
                  else (Inl e, []))
         | Inr _ \<Rightarrow> (Inl AttributeError, [])))"

subsection \<open>\<open>get_date_from_exif\<close>\<close>

definition get_date_from_exif :: "env \<Rightarrow> Image \<Rightarrow> (exn + datetime) \<times> log" where
  "get_date_from_exif env img =
     (case getexif img of
        None \<Rightarrow> (Inl NoMatchException, [])
      | Some exif \<Rightarrow>
          (case fold (\<lambda>tag_id datetime_str. if truthy datetime_str then datetime_str else exif tag_id)
                  (map snd (DATETIME_TAGS env)) None of
             None \<Rightarrow> (Inl NoMatchException, [])
           | Some datetime_str \<Rightarrow>
               (case strptime env datetime_str ''%Y:%m:%d %H:%M:%S'' of
                  Inr d \<Rightarrow> (Inr d, [])
                | Inl e \<Rightarrow>
                    if e = ValueError
                    then (Inl NoMatchException,
                          [(WARNING, ''Invalid date found in EXIF data ! (%s). Ignoring...'')])
                    else (Inl e, []))))"

subsection \<open>\<open>get_snap_date\<close>\<close>

text \<open>
  Step 1, the body of the first \<open>try\<close> (lines 147-154): the metadata source chosen
  by the extension, which is read from the path as it is, not lowercased.
\<close>

definition metadata_source :: "globals \<Rightarrow> env \<Rightarrow> path \<Rightarrow> (exn + datetime) \<times> log" where
  "metadata_source g env img_path =
     (let img_extension = drop 1 (suffix img_path)
      in if img_extension \<in> set (IMAGE_EXTENSIONS g)
         then (case open_image env img_path of
                 Inl e \<Rightarrow> (Inl e, [])
               | Inr img \<Rightarrow> get_date_from_exif env img)
         else if img_extension \<in> set (VIDEO_EXTENSIONS g)
         then get_date_from_video_metadata env img_path
         else (Inl NoMatchException, []))"

text \<open>
  The \<open>except NoMatchException\<close> and \<open>else\<close> clauses of both \<open>try\<close> statements
  (lines 155-162 and 167-174): \<open>NoMatchException\<close> becomes \<open>None\<close>, any other
  exception goes on to the caller.
\<close>

definition except_NoMatchException ::
    "string \<Rightarrow> string \<Rightarrow> (exn + datetime) \<times> log \<Rightarrow> (exn + datetime option) \<times> log" where
  "except_NoMatchException failed succeeded r =
     (case fst r of
        Inl e \<Rightarrow>
          if e = NoMatchException then (Inr None, snd r @ [(DEBUG, failed)])
          else (Inl e, snd r)
      | Inr d \<Rightarrow> (Inr (Some d), snd r @ [(DEBUG, succeeded)]))"

text \<open>Steps 3a, 4 and 3b (lines 176-209), on the two values the \<open>try\<close> statements left.\<close>

definition reconcile :: "datetime option \<Rightarrow> datetime option \<Rightarrow> (exn + datetime) \<times> log" where
  "reconcile metadata_datetime filename_datetime =
     (case (metadata_datetime, filename_datetime) of
        (Some m, None) \<Rightarrow> (Inr m, [(DEBUG, ''Using EXIF / metadata-based snap_date'')])
      | (None, Some f) \<Rightarrow> (Inr f, [(DEBUG, ''Using filename snap_date'')])
      | (None, None) \<Rightarrow> (Inl NoMatchException, [])
      | (Some m, Some f) \<Rightarrow>
          if m = f then (Inr m, [(DEBUG, ''Both datetimes match.'')])
          else if date m = date f
          then (Inr m,
                [(WARNING, ''EXIF / metadata-based and filename-based datetime only loosely match. Using EXIF / metadata-based.'')])
          else (Inl NoMatchException,
                [(ERROR, ''EXIF / metadata-based and filename-based datetime do not match !'')]))"

definition get_snap_date :: "globals \<Rightarrow> env \<Rightarrow> path \<Rightarrow> (exn + datetime) \<times> log" where
  "get_snap_date g env img_path =
     (case except_NoMatchException
             ''Could not extract snap_date from EXIF / metadata''
             ''Successfully Extracted EXIF / metadata-based snap_date: %s''
             (metadata_source g env img_path) of
        (Inl e, log1) \<Rightarrow> (Inl e, log1)
      | (Inr metadata_datetime, log1) \<Rightarrow>
          (case except_NoMatchException
                  ''Could not extract snap_date from filename''
                  ''Successfully Extracted filename snap_date: %s''
                  (get_date_from_filename g env (name img_path), []) of
             (Inl e, log2) \<Rightarrow> (Inl e, log1 @ log2)
           | (Inr filename_datetime, log2) \<Rightarrow>
               (let (r, log3) = reconcile metadata_datetime filename_datetime
                in (r, log1 @ log2 @ log3))))"

section \<open>\<open>picture.py\<close>\<close>

record Picture =
  source_path :: path
  snap_date :: datetime

definition extension :: "Picture \<Rightarrow> string" where
  "extension self =
     (let ext = drop 1 (lower (suffix (source_path self)))
      in if ext = ''jpeg'' then ''jpg''
         else if ext = ''tiff'' then ''tif''
         else ext)"

definition is_video :: "globals \<Rightarrow> Picture \<Rightarrow> bool" where
  "is_video g self = (extension self \<in> set (VIDEO_EXTENSIONS g))"

definition get_output_path :: "globals \<Rightarrow> Picture \<Rightarrow> int \<Rightarrow> path" where
  "get_output_path g self duplicate_count =
     (let d = snap_date self;
          tag = (if is_video g self then ''VID'' else ''IMG'');
          ext = extension self;
          ymdhms_str =
            str_int (year d) @ ''-'' @ str_int (month d) @ ''-'' @ str_int (day d) @ ''-'' @
            str_int (hour d) @ ''h'' @ str_int (minute d) @
            (if second d \<noteq> 0 then ''m'' @ str_int (second d) @ ''s'' else '''');
          filename = ymdhms_str @ ''_'' @ tag @ str_int duplicate_count @ ''.'' @ ext;
          folder = Path (str_int (year d) @ ''/'' @ str_int (month d))
      in joinpath folder filename)"

text \<open>
  For the proofs: the \<open>filename\<close> of \<open>get_output_path\<close> up to and including
  the dot, that is all of it but the extension.
\<close>

definition filename_stem :: "globals \<Rightarrow> Picture \<Rightarrow> int \<Rightarrow> string" where
  "filename_stem g self duplicate_count =
     (let d = snap_date self
      in str_int (year d) @ ''-'' @ str_int (month d) @ ''-'' @ str_int (day d) @ ''-'' @
         str_int (hour d) @ ''h'' @ str_int (minute d) @
         (if second d \<noteq> 0 then ''m'' @ str_int (second d) @ ''s'' else []) @
         ''_'' @ (if is_video g self then ''VID'' else ''IMG'') @
         str_int duplicate_count @ ''.'')"

section \<open>\<open>picture_manip.py\<close>: \<open>get_path_couples\<close>\<close>

text \<open>
  The state \<open>get_path_couples\<close> holds between two items: the local set
  \<open>used_paths\<close> and the entry \<open>_CURR_PICTURE["picture"]\<close> of the module-level
  dictionary. The logging calls of this function change neither and are left out.
\<close>

record assigner_state =
  used_paths :: "path set"
  CURR_PICTURE :: "Picture option"

text \<open>
  The \<open>while\<close> loop of lines 43-44, entered with the current \<open>duplicate_count\<close>;
  it returns the final counter and the \<open>output_path\<close> bound by the last test.
  \<open>None\<close> stands for a loop that never leaves.
\<close>

partial_function (option) duplicate_loop ::
    "globals \<Rightarrow> Picture \<Rightarrow> path set \<Rightarrow> int \<Rightarrow> (int \<times> path) option" where
  "duplicate_loop g picture used duplicate_count =
     (if get_output_path g picture duplicate_count \<in> used
      then duplicate_loop g picture used (duplicate_count + 1)
      else Some (duplicate_count, get_output_path g picture duplicate_count))"

declare duplicate_loop.simps [code]

text \<open>
  One iteration of the \<open>for\<close> loop (lines 40-48): the yielded couple and the state
  after the statement that follows the \<open>yield\<close>. No statement of the body touches
  \<open>used_paths\<close>.
\<close>

definition assign_one ::
    "globals \<Rightarrow> assigner_state \<Rightarrow> Picture \<Rightarrow> ((path \<times> path) \<times> assigner_state) option" where
  "assign_one g st picture =
     (let st1 = st\<lparr>CURR_PICTURE := Some picture\<rparr>
      in case duplicate_loop g picture (used_paths st1) 1 of
           None \<Rightarrow> None
         | Some (duplicate_count, output_path) \<Rightarrow>
             Some ((source_path picture, output_path), st1\<lparr>CURR_PICTURE := None\<rparr>))"

text \<open>The \<open>for\<close> loop, consumed to the end: the couples in the order yielded.\<close>

fun path_couples_loop ::
    "globals \<Rightarrow> assigner_state \<Rightarrow> Picture list \<Rightarrow> ((path \<times> path) list \<times> assigner_state) option" where
  "path_couples_loop g st [] = Some ([], st)"
| "path_couples_loop g st (picture # pictures) =
     (case assign_one g st picture of
        None \<Rightarrow> None
      | Some (couple, st') \<Rightarrow>
          (case path_couples_loop g st' pictures of
             None \<Rightarrow> None
           | Some (couples, st'') \<Rightarrow> Some (couple # couples, st'')))"

definition get_path_couples :: "globals \<Rightarrow> Picture list \<Rightarrow> (path \<times> path) list option" where
  "get_path_couples g pictures =
     map_option fst (path_couples_loop g \<lparr>used_paths = {}, CURR_PICTURE = None\<rparr> pictures)"

section \<open>Example inputs\<close>

text \<open>
  A small world to evaluate the functions on: two image extensions besides the usual
  ones, two video extensions, one filename pattern for names such as
  \<open>IMG_20240305_143000.jpg\<close> and one for names that hold a year and a month only.
\<close>

definition example_globals :: globals where
  "example_globals =
     \<lparr>IMAGE_EXTENSIONS = [''jpg'', ''jpeg'', ''png'', ''tif'', ''tiff''],
      VIDEO_EXTENSIONS = [''mp4'', ''mov''],
      FILENAME_REGEXES = [''full'', ''year-month'']\<rparr>"

definition groups :: "(string \<times> string option) list \<Rightarrow> match" where
  "groups kvs k = (case map_of kvs k of None \<Rightarrow> Inl IndexError | Some v \<Rightarrow> Inr v)"

definition match_20240305_143000 :: match where
  "match_20240305_143000 =
     groups [(''year'', Some ''2024''), (''month'', Some ''03''), (''day'', Some ''05''),
             (''hour'', Some ''14''), (''minute'', Some ''30''), (''second'', Some ''00'')]"

definition match_2024_03 :: match where
  "match_2024_03 =
     groups [(''year'', Some ''2024''), (''month'', Some ''03''), (''day'', None),
             (''hour'', None), (''minute'', None), (''second'', None)]"

definition example_re_search :: "string \<Rightarrow> string \<Rightarrow> match option" where
  "example_re_search regex s =
     (if regex = ''full'' \<and>
         s \<in> set [''IMG_20240305_143000.jpg'', ''VID_20240305_143000.mp4'',
                  ''IMG_20240305_143000.png'', ''IMG_20240305_143000.tif'',
                  ''20240305_143000.txt'']
      then Some match_20240305_143000
      else if regex = ''year-month'' \<and> s = ''2024-03.jpg'' then Some match_2024_03
      else None)"

definition example_strptime :: "string \<Rightarrow> string \<Rightarrow> exn + datetime" where
  "example_strptime s format =
     (if s = ''2024:03:05 14:30:07'' \<and> format = ''%Y:%m:%d %H:%M:%S''
      then Inr \<lparr>year = 2024, month = 3, day = 5, hour = 14, minute = 30, second = 7\<rparr>
      else if s = ''2023:08:15 09:05:00'' \<and> format = ''%Y:%m:%d %H:%M:%S''
      then Inr \<lparr>year = 2023, month = 8, day = 15, hour = 9, minute = 5, second = 0\<rparr>
      else if s = ''2024-03-05T14:30:00'' \<and> format = ''%Y-%m-%dT%H:%M:%S''
      then Inr \<lparr>year = 2024, month = 3, day = 5, hour = 14, minute = 30, second = 0\<rparr>
      else Inl ValueError)"

definition exif_with :: "string \<Rightarrow> Image" where
  "exif_with s = \<lparr>getexif = Some (\<lambda>tag_id. if tag_id = 36867 then Some s else None)\<rparr>"

definition example_open_image :: "path \<Rightarrow> exn + Image" where
  "example_open_image p =
     (if name p = ''IMG_20240305_143000.jpg'' then Inr (exif_with ''2024:03:05 14:30:07'')
      else if name p = ''holiday.jpg'' then Inr (exif_with ''2023:08:15 09:05:00'')
      else if name p = ''IMG_20240305_143000.tif'' then Inr (exif_with ''2023:08:15 09:05:00'')
      else if name p = ''IMG_20240305_143000.png'' then Inr \<lparr>getexif = None\<rparr>
      else if name p = ''2024-03.jpg'' then Inr \<lparr>getexif = None\<rparr>
      else if name p = ''corrupt.jpg'' then Inl UnidentifiedImageError
      else Inl FileNotFoundError)"

definition example_json_loads :: "string \<Rightarrow> exn + json" where
  "example_json_loads out =
     (if out = ''probe of VID_20240305_143000.mp4''
      then Inr (JObject [(''streams'',
             JArray [JObject [(''tags'',
               JObject [(''creation_time'', JString ''2024-03-05T14:30:00.000000Z'')])]])])
      else Inl JSONDecodeError)"

definition example_env :: env where
  "example_env =
     \<lparr>re_search = example_re_search,
      strptime = example_strptime,
      ExifTags_TAGS = [(271, ''Make''), (306, ''DateTime''), (36867, ''DateTimeOriginal''),
                       (36868, ''DateTimeDigitized'')],
      open_image = example_open_image,
      ffmpeg_imported = True,
      ffprobe_execute = (\<lambda>p. if name p = ''VID_20240305_143000.mp4''
                              then Inr ''probe of VID_20240305_143000.mp4''
                              else Inl FFmpegError),
      json_loads = example_json_loads\<rparr>"

definition in_photos :: "string \<Rightarrow> path" where
  "in_photos filename = [''/'', ''photos'', filename]"

definition example_date :: datetime where
  "example_date = \<lparr>year = 2024, month = 3, day = 5, hour = 14, minute = 30, second = 0\<rparr>"

definition holiday_date :: datetime where
  "holiday_date = \<lparr>year = 2023, month = 8, day = 15, hour = 9, minute = 5, second = 0\<rparr>"

text \<open>
  The same world with every image file unreadable, and with every image file
  carrying the capture time \<open>2023:08:15 09:05:00\<close>.
\<close>

definition corrupt_env :: env where
  "corrupt_env = example_env\<lparr>open_image := (\<lambda>p. Inl UnidentifiedImageError)\<rparr>"

definition exif_env :: env where
  "exif_env = example_env\<lparr>open_image := (\<lambda>p. Inr (exif_with ''2023:08:15 09:05:00''))\<rparr>"

text \<open>
  Two pictures taken in the same minute, with extensions that normalise to the same
  one, and the path both are given with the counter at 1 and at 2.
\<close>

definition photo_a :: Picture where
  "photo_a = \<lparr>source_path = in_photos ''a.jpg'', snap_date = example_date\<rparr>"

definition photo_b :: Picture where
  "photo_b = \<lparr>source_path = in_photos ''b.JPEG'', snap_date = example_date\<rparr>"

definition clip_c :: Picture where
  "clip_c = \<lparr>source_path = in_photos ''c.mp4'',
              snap_date = example_date\<lparr>second := 45\<rparr>\<rparr>"

definition path_IMG1 :: path where
  "path_IMG1 = [''2024'', ''3'', ''2024-3-5-14h30_IMG1.jpg'']"

definition path_IMG2 :: path where
  "path_IMG2 = [''2024'', ''3'', ''2024-3-5-14h30_IMG2.jpg'']"

section \<open>Evaluating the examples\<close>

lemma example_env_fields:
  "re_search example_env = example_re_search"
  "strptime example_env = example_strptime"
  "open_image example_env = example_open_image"
  "ffmpeg_imported example_env"
  "json_loads example_env = example_json_loads"
  by (simp_all add: example_env_def)

lemma example_globals_fields:
  "IMAGE_EXTENSIONS example_globals = [''jpg'', ''jpeg'', ''png'', ''tif'', ''tiff'']"
  "VIDEO_EXTENSIONS example_globals = [''mp4'', ''mov'']"
  "FILENAME_REGEXES example_globals = [''full'', ''year-month'']"
  by (simp_all add: example_globals_def)

lemma name_in_photos: "name (in_photos f) = f"
  by (simp add: name_def in_photos_def)

lemma suffix_in_photos:
  "suffix (in_photos ''IMG_20240305_143000.jpg'') = ''.jpg''"
  "suffix (in_photos ''holiday.jpg'') = ''.jpg''"
  "suffix (in_photos ''corrupt.jpg'') = ''.jpg''"
  "suffix (in_photos ''2024-03.jpg'') = ''.jpg''"
  "suffix (in_photos ''IMG_20240305_143000.png'') = ''.png''"
  "suffix (in_photos ''IMG_20240305_143000.tif'') = ''.tif''"
  "suffix (in_photos ''VID_20240305_143000.mp4'') = ''.mp4''"
  "suffix (in_photos ''clip.mov'') = ''.mov''"
  "suffix (in_photos ''20240305_143000.txt'') = ''.txt''"
  by (simp_all add: suffix_def name_in_photos)

lemmas py_int_eval = py_int_def strip_def is_space_def is_digit_def digits_value_def digit_val_def

lemma parts_20240305_143000:
  "datetime_parts match_20240305_143000
       [''year'', ''month'', ''day'', ''hour'', ''minute'', ''second'']
     = Inr [(''year'', 2024), (''month'', 3), (''day'', 5),
            (''hour'', 14), (''minute'', 30), (''second'', 0)]"
  by (simp add: match_20240305_143000_def groups_def and_then_def py_int_eval)

lemma new_datetime_20240305_143000:
  "new_datetime [(''year'', 2024), (''month'', 3), (''day'', 5),
                 (''hour'', 14), (''minute'', 30), (''second'', 0)]
     = Inr example_date"
  by (simp add: new_datetime_def required_arg_def optional_arg_def c_int_def and_then_def
      valid_datetime_def days_in_month_def example_date_def)

lemma filename_20240305_143000:
  "f \<in> set [''IMG_20240305_143000.jpg'', ''VID_20240305_143000.mp4'',
             ''IMG_20240305_143000.png'', ''IMG_20240305_143000.tif'',
             ''20240305_143000.txt'']
   \<Longrightarrow> get_date_from_filename example_globals example_env f = Inr example_date"
  by (simp add: get_date_from_filename_def example_globals_fields example_env_fields
       example_re_search_def parts_20240305_143000 new_datetime_20240305_143000 and_then_def
       del: set_simps datetime_parts.simps)

lemma filename_no_match:
  "f \<in> set [''holiday.jpg'', ''corrupt.jpg'', ''clip.mov'']
   \<Longrightarrow> get_date_from_filename example_globals example_env f = Inl NoMatchException"
  by (auto simp add: get_date_from_filename_def example_globals_fields example_env_fields
       example_re_search_def)

lemma parts_2024_03:
  "datetime_parts match_2024_03 [''year'', ''month'', ''day'', ''hour'', ''minute'', ''second'']
     = Inr [(''year'', 2024), (''month'', 3)]"
  by (simp add: match_2024_03_def groups_def and_then_def py_int_eval)

lemma filename_2024_03:
  "get_date_from_filename example_globals example_env ''2024-03.jpg'' = Inl TypeError"
  by (simp add: get_date_from_filename_def example_globals_fields example_env_fields
       example_re_search_def parts_2024_03 new_datetime_def required_arg_def c_int_def
       and_then_def del: datetime_parts.simps)

lemma DATETIME_TAGS_example:
  "map snd (DATETIME_TAGS example_env) = [306, 36867, 36868]"
  by (simp add: DATETIME_TAGS_def example_env_def)

lemma exif_with_date:
  "get_date_from_exif example_env (exif_with ''2024:03:05 14:30:07'')
     = (Inr (example_date\<lparr>second := 7\<rparr>), [])"
  "get_date_from_exif example_env (exif_with ''2023:08:15 09:05:00'')
     = (Inr holiday_date, [])"
  unfolding get_date_from_exif_def exif_with_def
  by (simp_all add: DATETIME_TAGS_example truthy_def
        example_env_fields example_strptime_def example_date_def holiday_date_def)

lemma exif_absent:
  "get_date_from_exif env \<lparr>getexif = None\<rparr> = (Inl NoMatchException, [])"
  by (simp add: get_date_from_exif_def)

lemma metadata_examples:
  "metadata_source example_globals example_env (in_photos ''IMG_20240305_143000.jpg'')
     = (Inr (example_date\<lparr>second := 7\<rparr>), [])"
  "metadata_source example_globals example_env (in_photos ''holiday.jpg'')
     = (Inr holiday_date, [])"
  "metadata_source example_globals example_env (in_photos ''IMG_20240305_143000.tif'')
     = (Inr holiday_date, [])"
  "metadata_source example_globals example_env (in_photos ''IMG_20240305_143000.png'')
     = (Inl NoMatchException, [])"
  "metadata_source example_globals example_env (in_photos ''2024-03.jpg'')
     = (Inl NoMatchException, [])"
  "metadata_source example_globals example_env (in_photos ''corrupt.jpg'')
     = (Inl UnidentifiedImageError, [])"
  "metadata_source example_globals example_env (in_photos ''20240305_143000.txt'')
     = (Inl NoMatchException, [])"
  unfolding metadata_source_def suffix_in_photos
  by (simp_all add: example_globals_fields example_env_fields example_open_image_def
        name_in_photos exif_with_date exif_absent)

lemma video_example:
  "get_date_from_video_metadata example_env (in_photos ''VID_20240305_143000.mp4'')
     = (Inr example_date, [])"
  unfolding get_date_from_video_metadata_def
  by (simp add: example_env_fields example_env_def
       name_in_photos example_json_loads_def and_then_def example_strptime_def example_date_def)

lemma metadata_video:
  "metadata_source example_globals example_env (in_photos ''VID_20240305_143000.mp4'')
     = (Inr example_date, [])"
  unfolding metadata_source_def suffix_in_photos
  by (simp add: example_globals_fields video_example)

lemma video_failure:
  "get_date_from_video_metadata example_env (in_photos ''clip.mov'')
     = (Inl NoMatchException, [(ERROR, ''Failed to get video metadata ! for %s. Error: %s'')])"
  unfolding get_date_from_video_metadata_def
  by (simp add: example_env_fields example_env_def name_in_photos and_then_def)

lemma metadata_video_failure:
  "fst (metadata_source example_globals example_env (in_photos ''clip.mov'')) = Inl NoMatchException"
  unfolding metadata_source_def suffix_in_photos
  by (simp add: example_globals_fields video_failure)


section \<open>The Reconciler\<close>

lemma exif_success_log:
  "fst (get_date_from_exif env img) = Inr d \<Longrightarrow> snd (get_date_from_exif env img) = []"
  by (auto simp: get_date_from_exif_def split: option.splits sum.splits if_splits)

lemma video_success_log:
  "fst (get_date_from_video_metadata env p) = Inr d \<Longrightarrow>
   snd (get_date_from_video_metadata env p) = []"
  by (auto simp: get_date_from_video_metadata_def
           split: option.splits sum.splits if_splits json.splits)

lemma metadata_success_log:
  "fst (metadata_source g env p) = Inr d \<Longrightarrow> snd (metadata_source g env p) = []"
  by (auto simp: metadata_source_def Let_def exif_success_log video_success_log
           split: sum.splits if_splits)

lemma get_snap_date_result:
  "fst (get_snap_date g env p) =
     (case fst (metadata_source g env p) of
        Inl e \<Rightarrow>
          if e = NoMatchException
          then (case get_date_from_filename g env (name p) of
                  Inl e' \<Rightarrow> Inl e'
                | Inr f \<Rightarrow> Inr f)
          else Inl e
      | Inr m \<Rightarrow>
          (case get_date_from_filename g env (name p) of
             Inl e' \<Rightarrow> if e' = NoMatchException then Inr m else Inl e'
           | Inr f \<Rightarrow> if date m = date f then Inr m else Inl NoMatchException))"
  by (simp add: get_snap_date_def except_NoMatchException_def reconcile_def
           split: sum.splits prod.splits)

lemma get_snap_date_warnings:
  assumes "fst (metadata_source g env p) = Inr m"
      and "get_date_from_filename g env (name p) = Inr f"
  shows "warnings (snd (get_snap_date g env p)) =
           (if m \<noteq> f \<and> date m = date f
            then [(WARNING, ''EXIF / metadata-based and filename-based datetime only loosely match. Using EXIF / metadata-based.'')]
            else [])"
  using assms metadata_success_log [OF assms(1)]
  by (simp add: get_snap_date_def except_NoMatchException_def reconcile_def warnings_def
           split: prod.splits)

subsection \<open>Which errors leave \<open>get_snap_date\<close>\<close>

text \<open>
  Whatever a source raises that is not \<open>NoMatchException\<close> is raised by
  \<open>get_snap_date\<close>; an error of the metadata source also keeps the filename
  source from being asked.
\<close>

lemma metadata_error_escapes:
  "fst (metadata_source g env p) = Inl e \<Longrightarrow> e \<noteq> NoMatchException \<Longrightarrow>
   get_snap_date g env p = (Inl e, snd (metadata_source g env p))"
  by (simp add: get_snap_date_def except_NoMatchException_def)

lemma filename_error_escapes:
  "get_date_from_filename g env (name p) = Inl e \<Longrightarrow> e \<noteq> NoMatchException \<Longrightarrow>
   (\<forall>e'. fst (metadata_source g env p) = Inl e' \<longrightarrow> e' = NoMatchException) \<Longrightarrow>
   fst (get_snap_date g env p) = Inl e"
  by (simp add: get_snap_date_result split: sum.splits)

lemma open_image_error_escapes:
  "drop 1 (suffix p) \<in> set (IMAGE_EXTENSIONS g) \<Longrightarrow> open_image env p = Inl e \<Longrightarrow>
   e \<noteq> NoMatchException \<Longrightarrow> fst (get_snap_date g env p) = Inl e"
  by (simp add: metadata_error_escapes metadata_source_def)

text \<open>
  C3. The claim: every failure inside an evidence source is caught in
  \<open>get_snap_date\<close> and counts as no evidence, so that only the terminal
  \<open>NoMatchException\<close> reaches the caller. The code catches \<open>NoMatchException\<close>
  and nothing else. An image file that PIL cannot identify makes \<open>open_image\<close>
  raise inside the first \<open>try\<close>, and a filename whose matched pattern gives a year and
  a month but no day makes the \<open>datetime\<close> constructor raise \<open>TypeError\<close> inside the
  second: both exceptions leave \<open>get_snap_date\<close>.
\<close>

theorem source_errors_escape:
  "fst (get_snap_date example_globals example_env (in_photos ''corrupt.jpg''))
     = Inl UnidentifiedImageError \<and>
   fst (get_snap_date example_globals example_env (in_photos ''2024-03.jpg''))
     = Inl TypeError"
  by (simp add: get_snap_date_result metadata_examples name_in_photos filename_2024_03)

subsection \<open>The reconciliation policy\<close>

text \<open>
  What holds of the two terminal cases. \<open>get_snap_date\<close> raises
  \<open>NoMatchException\<close> exactly when both sources raise \<open>NoMatchException\<close>, or
  both return a timestamp and the two calendar dates differ. When in addition no
  source raises anything but \<open>NoMatchException\<close>, every other case returns a
  timestamp, and a single source that returns a timestamp has it returned.
\<close>

lemma no_match_exactly:
  "fst (get_snap_date g env p) = Inl NoMatchException \<longleftrightarrow>
     (fst (metadata_source g env p) = Inl NoMatchException \<and>
      get_date_from_filename g env (name p) = Inl NoMatchException) \<or>
     (\<exists>m f. fst (metadata_source g env p) = Inr m \<and>
            get_date_from_filename g env (name p) = Inr f \<and> date m \<noteq> date f)"
  unfolding get_snap_date_result
  by (auto split: sum.splits)

lemma timestamp_otherwise:
  assumes "\<forall>e. fst (metadata_source g env p) = Inl e \<longrightarrow> e = NoMatchException"
      and "\<forall>e. get_date_from_filename g env (name p) = Inl e \<longrightarrow> e = NoMatchException"
      and "fst (get_snap_date g env p) \<noteq> Inl NoMatchException"
  shows "\<exists>d. fst (get_snap_date g env p) = Inr d"
  using assms unfolding get_snap_date_result
  by (auto split: sum.splits)

lemma single_source_returned:
  "fst (metadata_source g env p) = Inr m \<Longrightarrow>
   get_date_from_filename g env (name p) = Inl NoMatchException \<Longrightarrow>
   fst (get_snap_date g env p) = Inr m"
  "fst (metadata_source g env p) = Inl NoMatchException \<Longrightarrow>
   get_date_from_filename g env (name p) = Inr f \<Longrightarrow>
   fst (get_snap_date g env p) = Inr f"
  by (simp_all add: get_snap_date_result)

lemma reconciliation_examples:
  "fst (get_snap_date example_globals example_env (in_photos ''clip.mov''))
     = Inl NoMatchException"
  "fst (get_snap_date example_globals example_env (in_photos ''IMG_20240305_143000.tif''))
     = Inl NoMatchException"
  "fst (get_snap_date example_globals example_env (in_photos ''holiday.jpg''))
     = Inr holiday_date"
  "fst (get_snap_date example_globals example_env (in_photos ''IMG_20240305_143000.png''))
     = Inr example_date"
  by (simp_all add: get_snap_date_result metadata_examples metadata_video_failure
        name_in_photos filename_no_match filename_20240305_143000 date_def example_date_def
        holiday_date_def)

text \<open>The two other worlds: the filename source is the same, the metadata source is not.\<close>

lemma first_match_re_search:
  "re_search env' = re_search env \<Longrightarrow>
   first_match env' regexes filename = first_match env regexes filename"
  by (induction regexes) (simp_all split: option.split)

lemma filename_re_search:
  "re_search env' = re_search env \<Longrightarrow>
   get_date_from_filename g env' filename = get_date_from_filename g env filename"
  by (simp add: get_date_from_filename_def first_match_re_search [of env' env])

lemma filename_other_envs:
  "get_date_from_filename g corrupt_env filename = get_date_from_filename g example_env filename"
  "get_date_from_filename g exif_env filename = get_date_from_filename g example_env filename"
  by (rule filename_re_search, simp add: corrupt_env_def exif_env_def)+

lemma metadata_corrupt_env:
  "metadata_source example_globals corrupt_env (in_photos ''IMG_20240305_143000.jpg'')
     = (Inl UnidentifiedImageError, [])"
  unfolding metadata_source_def suffix_in_photos
  by (simp add: example_globals_fields corrupt_env_def)

lemma exif_env_date:
  "get_date_from_exif exif_env (exif_with ''2023:08:15 09:05:00'') = (Inr holiday_date, [])"
proof -
  have "DATETIME_TAGS exif_env = DATETIME_TAGS example_env"
    by (simp add: DATETIME_TAGS_def exif_env_def)
  moreover have "strptime exif_env = example_strptime"
    by (simp add: exif_env_def example_env_fields)
  ultimately show ?thesis
    unfolding get_date_from_exif_def exif_with_def
    by (simp add: DATETIME_TAGS_example truthy_def example_strptime_def holiday_date_def)
qed

lemma metadata_exif_env:
  "metadata_source example_globals exif_env (in_photos ''2024-03.jpg'')
     = (Inr holiday_date, [])"
proof -
  have "open_image exif_env (in_photos ''2024-03.jpg'')
          = Inr (exif_with ''2023:08:15 09:05:00'')"
    by (simp add: exif_env_def)
  then show ?thesis
    unfolding metadata_source_def suffix_in_photos
    by (simp add: example_globals_fields exif_env_date)
qed

text \<open>
  C4. The claim: \<open>get_snap_date\<close> raises \<open>NoMatchException\<close> exactly when both
  sources fail or both succeed with different calendar dates, and returns a timestamp
  in every other case. The code lets every other exception of a source through. For
  \<open>corrupt.jpg\<close> the metadata source fails at \<open>open_image\<close> and the filename source
  finds no match: both sources fail, and \<open>get_snap_date\<close> raises
  \<open>UnidentifiedImageError\<close>, neither \<open>NoMatchException\<close> nor a timestamp. For
  \<open>2024-03.jpg\<close> the image has no EXIF data and the filename gives no day: both
  sources fail, and \<open>get_snap_date\<close> raises \<open>TypeError\<close>.
\<close>

theorem terminal_case_raises_other_error:
  "fst (metadata_source example_globals example_env (in_photos ''corrupt.jpg''))
     = Inl UnidentifiedImageError \<and>
   get_date_from_filename example_globals example_env (name (in_photos ''corrupt.jpg''))
     = Inl NoMatchException \<and>
   fst (get_snap_date example_globals example_env (in_photos ''corrupt.jpg''))
     = Inl UnidentifiedImageError \<and>
   fst (metadata_source example_globals example_env (in_photos ''2024-03.jpg''))
     = Inl NoMatchException \<and>
   get_date_from_filename example_globals example_env (name (in_photos ''2024-03.jpg''))
     = Inl TypeError \<and>
   fst (get_snap_date example_globals example_env (in_photos ''2024-03.jpg''))
     = Inl TypeError"
  by (simp add: get_snap_date_result metadata_examples name_in_photos filename_no_match
        filename_2024_03)

text \<open>
  C5. The claim: when exactly one of the two sources succeeds, \<open>get_snap_date\<close>
  returns the timestamp of that source. The code does so only when the other source
  raises \<open>NoMatchException\<close>. With an unreadable \<open>IMG_20240305_143000.jpg\<close> the
  filename source alone succeeds, and \<open>get_snap_date\<close> raises
  \<open>UnidentifiedImageError\<close> before it asks the filename source. With good EXIF data
  in \<open>2024-03.jpg\<close> the metadata source alone succeeds, and \<open>get_snap_date\<close>
  raises the \<open>TypeError\<close> of the filename source.
\<close>

theorem single_success_not_returned:
  "fst (metadata_source example_globals corrupt_env (in_photos ''IMG_20240305_143000.jpg''))
     = Inl UnidentifiedImageError \<and>
   get_date_from_filename example_globals corrupt_env
       (name (in_photos ''IMG_20240305_143000.jpg''))
     = Inr example_date \<and>
   fst (get_snap_date example_globals corrupt_env (in_photos ''IMG_20240305_143000.jpg''))
     = Inl UnidentifiedImageError \<and>
   fst (metadata_source example_globals exif_env (in_photos ''2024-03.jpg''))
     = Inr holiday_date \<and>
   get_date_from_filename example_globals exif_env (name (in_photos ''2024-03.jpg''))
     = Inl TypeError \<and>
   fst (get_snap_date example_globals exif_env (in_photos ''2024-03.jpg''))
     = Inl TypeError"
  by (simp add: get_snap_date_result metadata_corrupt_env metadata_exif_env name_in_photos
        filename_other_envs filename_20240305_143000 filename_2024_03)

text \<open>
  C6. When both sources return a timestamp: if the two have the same calendar date
  and differ in the time of day, \<open>get_snap_date\<close> returns the metadata timestamp and
  logs exactly one warning; if the two are equal in every field, it returns that
  timestamp and logs no warning.
\<close>

theorem both_sources_succeed:
  assumes "fst (metadata_source g env p) = Inr m"
      and "get_date_from_filename g env (name p) = Inr f"
  shows "(date m = date f \<and> (hour m, minute m, second m) \<noteq> (hour f, minute f, second f)
            \<longrightarrow> fst (get_snap_date g env p) = Inr m \<and>
                length (warnings (snd (get_snap_date g env p))) = 1) \<and>
         (m = f
            \<longrightarrow> fst (get_snap_date g env p) = Inr m \<and>
                warnings (snd (get_snap_date g env p)) = [])"
  using assms by (auto simp: get_snap_date_result get_snap_date_warnings [OF assms])

theorem both_sources_succeed_witness:
  "fst (get_snap_date example_globals example_env (in_photos ''IMG_20240305_143000.jpg''))
     = Inr (example_date\<lparr>second := 7\<rparr>) \<and>
   length (warnings (snd (get_snap_date example_globals example_env
                            (in_photos ''IMG_20240305_143000.jpg'')))) = 1 \<and>
   fst (get_snap_date example_globals example_env (in_photos ''VID_20240305_143000.mp4''))
     = Inr example_date \<and>
   warnings (snd (get_snap_date example_globals example_env
                    (in_photos ''VID_20240305_143000.mp4''))) = []"
  using both_sources_succeed
          [of example_globals example_env "in_photos ''IMG_20240305_143000.jpg''"
              "example_date\<lparr>second := 7\<rparr>" example_date]
        both_sources_succeed
          [of example_globals example_env "in_photos ''VID_20240305_143000.mp4''"
              example_date example_date]
  by (simp add: metadata_examples metadata_video name_in_photos filename_20240305_143000
        date_def example_date_def)

text \<open>
  C8. When the extension of the path is in neither \<open>IMAGE_EXTENSIONS\<close> nor
  \<open>VIDEO_EXTENSIONS\<close>, the metadata source raises \<open>NoMatchException\<close>, which
  \<open>get_snap_date\<close> takes as no evidence; the filename source is still asked, and
  when it returns a timestamp, \<open>get_snap_date\<close> returns that timestamp.
\<close>

theorem unsupported_extension:
  assumes "drop 1 (suffix p) \<notin> set (IMAGE_EXTENSIONS g)"
      and "drop 1 (suffix p) \<notin> set (VIDEO_EXTENSIONS g)"
  shows "metadata_source g env p = (Inl NoMatchException, []) \<and>
         (get_date_from_filename g env (name p) = Inr f
            \<longrightarrow> fst (get_snap_date g env p) = Inr f)"
  using assms by (simp add: get_snap_date_result metadata_source_def)

theorem unsupported_extension_witness:
  "drop 1 (suffix (in_photos ''20240305_143000.txt''))
     \<notin> set (IMAGE_EXTENSIONS example_globals) \<and>
   drop 1 (suffix (in_photos ''20240305_143000.txt''))
     \<notin> set (VIDEO_EXTENSIONS example_globals) \<and>
   fst (get_snap_date example_globals example_env (in_photos ''20240305_143000.txt''))
     = Inr example_date"
  using unsupported_extension
          [of "in_photos ''20240305_143000.txt''" example_globals example_env example_date]
  by (simp add: suffix_in_photos example_globals_fields name_in_photos
        filename_20240305_143000)

section \<open>Decimal strings\<close>

text \<open>\<open>str\<close> of an integer is not empty, holds digits after an optional sign, has no
  leading zero, and tells two integers apart.\<close>

lemma digit_char_in_digits: "k < 10 \<Longrightarrow> digit_char k \<in> set ''0123456789''"
  unfolding digit_char_def by (rule nth_mem) simp

lemma digit_char_inj: "a < 10 \<Longrightarrow> b < 10 \<Longrightarrow> digit_char a = digit_char b \<Longrightarrow> a = b"
  unfolding digit_char_def
  by (subst (asm) nth_eq_iff_index_eq) simp_all

lemma str_nat_small: "n < 10 \<Longrightarrow> str_nat n = [digit_char n]"
  by (subst str_nat.simps) simp

lemma str_nat_large:
  "\<not> n < 10 \<Longrightarrow> str_nat n = str_nat (n div 10) @ [digit_char (n mod 10)]"
  by (subst str_nat.simps) simp

lemma str_nat_nonempty: "str_nat n \<noteq> []"
  by (cases "n < 10") (simp_all add: str_nat_small str_nat_large)

lemma str_nat_digits: "set (str_nat n) \<subseteq> set ''0123456789''"
proof (induction n rule: str_nat.induct)
  case (1 n)
  show ?case
  proof (cases "n < 10")
    case True
    then show ?thesis
      using digit_char_in_digits [of n] by (simp only: str_nat_small) simp
  next
    case False
    have "n mod 10 < 10" by simp
    then have "digit_char (n mod 10) \<in> set ''0123456789''" by (rule digit_char_in_digits)
    moreover have "set (str_nat (n div 10)) \<subseteq> set ''0123456789''" using 1 False by blast
    ultimately show ?thesis
      by (simp only: str_nat_large [OF False] set_append) simp
  qed
qed


lemma str_nat_length_small: "n < 10 \<Longrightarrow> length (str_nat n) = 1"
  by (simp only: str_nat_small) simp

lemma str_nat_length_large:
  assumes "\<not> n < 10"
  shows "2 \<le> length (str_nat n)"
proof -
  have "0 < length (str_nat (n div 10))"
    using str_nat_nonempty [of "n div 10"] by simp
  moreover have "length (str_nat n) = length (str_nat (n div 10)) + 1"
    by (simp only: str_nat_large [OF assms] length_append) simp
  ultimately show ?thesis by arith
qed

lemma str_nat_inj: "str_nat m = str_nat n \<Longrightarrow> m = n"
proof (induction m arbitrary: n rule: str_nat.induct)
  case (1 m)
  note eq = \<open>str_nat m = str_nat n\<close>
  have len: "length (str_nat m) = length (str_nat n)" by (simp only: eq)
  show ?case
  proof (cases "m < 10")
    case True
    have n: "n < 10"
    proof (rule ccontr)
      assume "\<not> n < 10"
      then have "2 \<le> length (str_nat n)" by (rule str_nat_length_large)
      moreover have "length (str_nat m) = 1" using True by (rule str_nat_length_small)
      ultimately show False using len by arith
    qed
    have "[digit_char m] = [digit_char n]"
      using eq by (simp only: str_nat_small [OF True] str_nat_small [OF n])
    then have "digit_char m = digit_char n" by (simp only: list.inject)
    with True n show ?thesis by (rule digit_char_inj)
  next
    case False
    have n: "\<not> n < 10"
    proof
      assume "n < 10"
      then have "length (str_nat n) = 1" by (rule str_nat_length_small)
      moreover have "2 \<le> length (str_nat m)" using False by (rule str_nat_length_large)
      ultimately show False using len by arith
    qed
    from eq have
      "str_nat (m div 10) @ [digit_char (m mod 10)] = str_nat (n div 10) @ [digit_char (n mod 10)]"
      by (simp only: str_nat_large [OF False] str_nat_large [OF n])
    then have a: "str_nat (m div 10) = str_nat (n div 10)"
      and b: "digit_char (m mod 10) = digit_char (n mod 10)"
      by (simp_all only: append1_eq_conv)
    from "1.IH" [OF False a] have d: "m div 10 = n div 10" .
    have "m mod 10 < 10" "n mod 10 < 10" by simp_all
    then have e: "m mod 10 = n mod 10" using b by (rule digit_char_inj)
    have "m = 10 * (m div 10) + m mod 10" by simp
    also have "\<dots> = 10 * (n div 10) + n mod 10" by (simp only: d e)
    also have "\<dots> = n" by simp
    finally show ?thesis .
  qed
qed


lemma str_nat_mem_digit: "c \<in> set (str_nat n) \<Longrightarrow> c \<in> set ''0123456789''"
  using str_nat_digits [of n] by (rule subsetD)

lemma str_nat_hd_digit: "hd (str_nat n) \<in> set ''0123456789''"
proof -
  have "hd (str_nat n) \<in> set (str_nat n)"
    using str_nat_nonempty [of n] by (rule hd_in_set)
  then show ?thesis by (rule str_nat_mem_digit)
qed

lemma str_nat_no_leading_zero: "0 < n \<Longrightarrow> hd (str_nat n) \<noteq> CHR ''0''"
proof (induction n rule: str_nat.induct)
  case (1 n)
  show ?case
  proof (cases "n < 10")
    case True
    with \<open>0 < n\<close> have "n = 1 \<or> n = 2 \<or> n = 3 \<or> n = 4 \<or> n = 5 \<or> n = 6 \<or> n = 7 \<or> n = 8 \<or> n = 9"
      by arith
    then have "digit_char n \<noteq> CHR ''0''"
      by (elim disjE) (simp_all add: digit_char_def)
    then show ?thesis by (simp add: str_nat_small [OF True])
  next
    case False
    then have "0 < n div 10" by simp
    with "1.IH" False have "hd (str_nat (n div 10)) \<noteq> CHR ''0''" by blast
    moreover have "hd (str_nat n) = hd (str_nat (n div 10))"
      using str_nat_nonempty [of "n div 10"]
      by (simp add: str_nat_large [OF False])
    ultimately show ?thesis by simp
  qed
qed

lemma str_int_nonempty: "str_int i \<noteq> []"
  by (simp add: str_int_def str_nat_nonempty)

lemma str_int_mem:
  assumes "c \<in> set (str_int i)"
  shows "c = CHR ''-'' \<or> c \<in> set ''0123456789''"
proof (cases "i < 0")
  case True
  then have "str_int i = CHR ''-'' # str_nat (nat (- i))" by (simp add: str_int_def)
  with assms have "c = CHR ''-'' \<or> c \<in> set (str_nat (nat (- i)))" by simp
  then show ?thesis using str_nat_mem_digit [of c "nat (- i)"] by blast
next
  case False
  then have "str_int i = str_nat (nat i)" by (simp add: str_int_def)
  with assms have "c \<in> set (str_nat (nat i))" by simp
  then show ?thesis using str_nat_mem_digit [of c "nat i"] by blast
qed

lemma str_nat_hd_not_minus: "hd (str_nat k) \<noteq> CHR ''-''"
proof
  assume "hd (str_nat k) = CHR ''-''"
  with str_nat_hd_digit [of k] have "CHR ''-'' \<in> set ''0123456789''" by simp
  then show False by simp
qed

lemma str_int_inj: "str_int i = str_int j \<Longrightarrow> i = j"
proof -
  assume eq: "str_int i = str_int j"
  have neg: "hd (str_int k) = CHR ''-'' \<longleftrightarrow> k < 0" for k
    using str_nat_hd_not_minus [of "nat k"] by (simp add: str_int_def)
  have "i < 0 \<longleftrightarrow> j < 0" using neg [of i] neg [of j] by (simp only: eq)
  then show ?thesis
  proof (cases "i < 0")
    case True
    with \<open>i < 0 \<longleftrightarrow> j < 0\<close> have j: "j < 0" by simp
    from eq True j have "str_nat (nat (- i)) = str_nat (nat (- j))" by (simp add: str_int_def)
    then have "nat (- i) = nat (- j)" by (rule str_nat_inj)
    with True j show ?thesis by simp
  next
    case False
    with \<open>i < 0 \<longleftrightarrow> j < 0\<close> have j: "\<not> j < 0" by simp
    from eq False j have "str_nat (nat i) = str_nat (nat j)" by (simp add: str_int_def)
    then have "nat i = nat j" by (rule str_nat_inj)
    with False j show ?thesis by simp
  qed
qed

lemma str_int_no_slash: "CHR ''/'' \<notin> set (str_int i)"
proof
  assume "CHR ''/'' \<in> set (str_int i)"
  then have "CHR ''/'' = CHR ''-'' \<or> CHR ''/'' \<in> set ''0123456789''" by (rule str_int_mem)
  then show False by simp
qed

lemma str_int_not_dot: "str_int i \<noteq> ''.''"
proof
  assume "str_int i = ''.''"
  then have "CHR ''.'' \<in> set (str_int i)" by simp
  then have "CHR ''.'' = CHR ''-'' \<or> CHR ''.'' \<in> set ''0123456789''" by (rule str_int_mem)
  then show False by simp
qed

lemma str_int_hd_not_slash: "hd (str_int i) \<noteq> CHR ''/''"
proof
  assume "hd (str_int i) = CHR ''/''"
  moreover have "hd (str_int i) \<in> set (str_int i)"
    using str_int_nonempty [of i] by (rule hd_in_set)
  ultimately show False using str_int_no_slash [of i] by simp
qed

lemma str_int_no_leading_zero: "0 < i \<Longrightarrow> hd (str_int i) \<noteq> CHR ''0''"
  by (simp add: str_int_def str_nat_no_leading_zero)

section \<open>Splitting and joining paths\<close>

lemma split_nonempty: "split c s \<noteq> []"
  by (induction s) (simp_all split: list.split)

lemma split_hd_tl: "split c s = hd (split c s) # tl (split c s)"
  using split_nonempty [of c s] by simp

lemma split_append:
  "c \<notin> set a \<Longrightarrow> split c (a @ b) = (a @ hd (split c b)) # tl (split c b)"
proof (induction a)
  case Nil
  show ?case using split_hd_tl [of c b] by simp
next
  case (Cons x a)
  then have "split c (a @ b) = (a @ hd (split c b)) # tl (split c b)" and "x \<noteq> c"
    by auto
  then show ?case by simp
qed

lemma split_no_sep: "c \<notin> set s \<Longrightarrow> split c s = [s]"
  using split_append [of c s "[]"] by simp

lemma split_sep: "c \<notin> set a \<Longrightarrow> split c (a @ c # b) = a # split c b"
  using split_append [of c a "c # b"] by simp

lemma Path_two:
  assumes "CHR ''/'' \<notin> set a" "a \<noteq> []" "a \<noteq> ''.''"
      and "CHR ''/'' \<notin> set b" "b \<noteq> []" "b \<noteq> ''.''"
  shows "Path (a @ CHR ''/'' # b) = [a, b]"
proof -
  have "hd a \<in> set a" using assms(2) by (rule hd_in_set)
  with assms(1) have "hd a \<noteq> CHR ''/''" by metis
  with assms(2) have "hd (a @ CHR ''/'' # b) \<noteq> CHR ''/''" by simp
  moreover have "split CHR ''/'' (a @ CHR ''/'' # b) = [a, b]"
    using split_sep [OF assms(1), of b] split_no_sep [OF assms(4)] by simp
  ultimately show ?thesis using assms by (simp add: Path_def)
qed

lemma Path_first:
  assumes "CHR ''/'' \<notin> set a" "2 \<le> length a"
  shows "Path (a @ e) =
           (a @ hd (split CHR ''/'' e)) #
           filter (\<lambda>p. p \<noteq> [] \<and> p \<noteq> ''.'') (tl (split CHR ''/'' e))"
proof -
  from assms(2) have ne: "a \<noteq> []" by auto
  then have "hd a \<in> set a" by (rule hd_in_set)
  with assms(1) have "hd a \<noteq> CHR ''/''" by metis
  with ne have "hd (a @ e) \<noteq> CHR ''/''" by simp
  moreover have "a @ hd (split CHR ''/'' e) \<noteq> ''.''"
  proof
    assume "a @ hd (split CHR ''/'' e) = ''.''"
    then have "length (a @ hd (split CHR ''/'' e)) = 1" by simp
    with assms(2) show False by simp
  qed
  moreover have "a @ hd (split CHR ''/'' e) \<noteq> []" using ne by simp
  ultimately show ?thesis
    by (simp add: Path_def split_append [OF assms(1)])
qed

lemma joinpath_folder_filename:
  assumes "CHR ''/'' \<notin> set a" "a \<noteq> []" "a \<noteq> ''.''"
      and "CHR ''/'' \<notin> set b" "b \<noteq> []" "b \<noteq> ''.''"
      and "CHR ''/'' \<notin> set f" "2 \<le> length f"
  shows "joinpath (Path (a @ CHR ''/'' # b)) (f @ e) =
           [a, b, f @ hd (split CHR ''/'' e)] @
           filter (\<lambda>p. p \<noteq> [] \<and> p \<noteq> ''.'') (tl (split CHR ''/'' e))"
proof -
  have "f @ hd (split CHR ''/'' e) \<noteq> ''/''"
  proof
    assume "f @ hd (split CHR ''/'' e) = ''/''"
    then have "length (f @ hd (split CHR ''/'' e)) = 1" by simp
    with assms(8) show False by simp
  qed
  then show ?thesis
    by (simp add: joinpath_def Path_two [OF assms(1-6)] Path_first [OF assms(7,8)])
qed

section \<open>The shape of an output path\<close>

lemma filename_stem_no_slash: "CHR ''/'' \<notin> set (filename_stem g p n)"
  by (simp add: filename_stem_def Let_def str_int_no_slash)

lemma filename_stem_length: "2 \<le> length (filename_stem g p n)"
  by (simp add: filename_stem_def Let_def)

lemma get_output_path_join:
  "get_output_path g p n =
     joinpath (Path (str_int (year (snap_date p)) @ CHR ''/'' # str_int (month (snap_date p))))
       (filename_stem g p n @ extension p)"
  by (simp add: get_output_path_def filename_stem_def Let_def)

lemma get_output_path_parts:
  "get_output_path g p n =
     [str_int (year (snap_date p)), str_int (month (snap_date p)),
      filename_stem g p n @ hd (split CHR ''/'' (extension p))] @
     filter (\<lambda>p. p \<noteq> [] \<and> p \<noteq> ''.'') (tl (split CHR ''/'' (extension p)))"
  unfolding get_output_path_join
  by (rule joinpath_folder_filename)
     (rule str_int_no_slash str_int_nonempty str_int_not_dot filename_stem_no_slash
           filename_stem_length)+

lemma filename_stem_inj: "filename_stem g p n = filename_stem g p m \<Longrightarrow> n = (m::int)"
proof -
  assume "filename_stem g p n = filename_stem g p m"
  then have "str_int n = str_int m" by (simp add: filename_stem_def Let_def)
  then show ?thesis by (rule str_int_inj)
qed

lemma get_output_path_inj:
  assumes "get_output_path g p n = get_output_path g p m"
  shows "n = m"
proof -
  from assms have "filename_stem g p n @ hd (split CHR ''/'' (extension p)) =
                   filename_stem g p m @ hd (split CHR ''/'' (extension p))"
    by (simp add: get_output_path_parts)
  then have "filename_stem g p n = filename_stem g p m" by simp
  then show ?thesis by (rule filename_stem_inj)
qed

section \<open>The Path Assigner\<close>

lemma duplicate_loop_unused:
  "get_output_path g p n \<notin> used \<Longrightarrow>
   duplicate_loop g p used n = Some (n, get_output_path g p n)"
  by (subst duplicate_loop.simps) simp

lemma duplicate_loop_used:
  "get_output_path g p n \<in> used \<Longrightarrow>
   duplicate_loop g p used n = duplicate_loop g p used (n + 1)"
  by (subst duplicate_loop.simps) simp

lemma duplicate_loop_reaches:
  "get_output_path g p (n + int k) \<notin> used \<Longrightarrow> \<exists>r. duplicate_loop g p used n = Some r"
proof (induction k arbitrary: n)
  case 0
  then show ?case by (simp add: duplicate_loop_unused)
next
  case (Suc k)
  show ?case
  proof (cases "get_output_path g p n \<in> used")
    case False
    then show ?thesis by (simp add: duplicate_loop_unused)
  next
    case True
    have eq: "n + int (Suc k) = (n + 1) + int k" by simp
    from Suc.prems [unfolded eq] have "get_output_path g p ((n + 1) + int k) \<notin> used" .
    then have "\<exists>r. duplicate_loop g p used (n + 1) = Some r" by (rule Suc.IH)
    then show ?thesis by (simp only: duplicate_loop_used [OF True])
  qed
qed

lemma duplicate_loop_terminates:
  assumes "finite used"
  shows "\<exists>r. duplicate_loop g p used n = Some r"
proof -
  have inj: "inj (\<lambda>k. get_output_path g p (n + int k))"
  proof (rule injI)
    fix a b assume "get_output_path g p (n + int a) = get_output_path g p (n + int b)"
    then have "n + int a = n + int b" by (rule get_output_path_inj)
    then show "a = b" by simp
  qed
  have "\<exists>k. get_output_path g p (n + int k) \<notin> used"
  proof (rule ccontr)
    assume "\<not> (\<exists>k. get_output_path g p (n + int k) \<notin> used)"
    then have "range (\<lambda>k. get_output_path g p (n + int k)) \<subseteq> used" by blast
    then have "finite (range (\<lambda>k. get_output_path g p (n + int k)))"
      using assms by (rule finite_subset)
    then have "finite (UNIV :: nat set)" using inj by (rule finite_imageD)
    then show False by simp
  qed
  then obtain k where "get_output_path g p (n + int k) \<notin> used" ..
  then show ?thesis by (rule duplicate_loop_reaches)
qed

lemma assign_one_empty:
  "used_paths st = {} \<Longrightarrow>
   assign_one g st p =
     Some ((source_path p, get_output_path g p 1), st\<lparr>CURR_PICTURE := None\<rparr>)"
  by (simp add: assign_one_def duplicate_loop_unused)

lemma path_couples_loop_empty:
  "used_paths st = {} \<Longrightarrow>
   \<exists>st'. path_couples_loop g st ps =
            Some (map (\<lambda>p. (source_path p, get_output_path g p 1)) ps, st') \<and>
         used_paths st' = {}"
proof (induction ps arbitrary: st)
  case Nil
  then show ?case by simp
next
  case (Cons p ps)
  have "used_paths (st\<lparr>CURR_PICTURE := None\<rparr>) = {}" using Cons.prems by simp
  from Cons.IH [OF this] obtain st' where
    "path_couples_loop g (st\<lparr>CURR_PICTURE := None\<rparr>) ps =
       Some (map (\<lambda>p. (source_path p, get_output_path g p 1)) ps, st')"
    and "used_paths st' = {}" by blast
  then show ?case using Cons.prems by (simp add: assign_one_empty)
qed

lemma get_path_couples_eq:
  "get_path_couples g ps = Some (map (\<lambda>p. (source_path p, get_output_path g p 1)) ps)"
proof -
  have "used_paths \<lparr>used_paths = {}, CURR_PICTURE = None\<rparr> = {}" by simp
  from path_couples_loop_empty [OF this, of g ps] show ?thesis
    by (auto simp: get_path_couples_def)
qed

section \<open>Extensions\<close>

lemma rfind_absent: "c \<notin> set s \<Longrightarrow> rfind c s = - 1"
  by (induction s) auto

lemma rfind_last: "c \<notin> set e \<Longrightarrow> rfind c (s @ c # e) = int (length s)"
  by (induction s) (simp_all add: rfind_absent Let_def)

lemma suffix_of_name:
  assumes "name p = stem @ CHR ''.'' # e" "stem \<noteq> []" "e \<noteq> []" "CHR ''.'' \<notin> set e"
  shows "suffix p = CHR ''.'' # e"
proof -
  have "rfind CHR ''.'' (name p) = int (length stem)"
    using assms(4) by (simp add: assms(1) rfind_last)
  moreover have "0 < length stem" "0 < length e" using assms(2,3) by simp_all
  ultimately show ?thesis by (simp add: suffix_def Let_def assms(1))
qed

lemma suffix_no_dot: "CHR ''.'' \<notin> set (name p) \<Longrightarrow> suffix p = []"
  by (simp add: suffix_def Let_def rfind_absent)

lemma lower_char_other:
  "c \<notin> set ''ABCDEFGHIJKLMNOPQRSTUVWXYZ'' \<Longrightarrow> lower_char c = c"
  by (simp add: lower_char_def)

lemma lower_char_range: "lower_char c = c \<or> lower_char c \<in> set ''abcdefghijklmnopqrstuvwxyz''"
proof (cases "map_of (zip ''ABCDEFGHIJKLMNOPQRSTUVWXYZ'' ''abcdefghijklmnopqrstuvwxyz'') c")
  case None
  then show ?thesis by (simp only: lower_char_def option.case) simp
next
  case (Some l)
  then have "(c, l) \<in> set (zip ''ABCDEFGHIJKLMNOPQRSTUVWXYZ'' ''abcdefghijklmnopqrstuvwxyz'')"
    by (rule map_of_SomeD)
  then have "l \<in> set ''abcdefghijklmnopqrstuvwxyz''" by (rule set_zip_rightD)
  moreover have "lower_char c = l" using Some by (simp only: lower_char_def option.case)
  ultimately show ?thesis by simp
qed

lemma lower_char_slash: "lower_char c = CHR ''/'' \<Longrightarrow> c = CHR ''/''"
proof -
  assume a: "lower_char c = CHR ''/''"
  from lower_char_range [of c] show ?thesis
  proof
    assume "lower_char c = c"
    with a show ?thesis by simp
  next
    assume "lower_char c \<in> set ''abcdefghijklmnopqrstuvwxyz''"
    with a have "CHR ''/'' \<in> set ''abcdefghijklmnopqrstuvwxyz''" by (simp only:)
    then show ?thesis by simp
  qed
qed

lemma lower_no_slash:
  assumes "CHR ''/'' \<notin> set s"
  shows "CHR ''/'' \<notin> set (lower s)"
proof
  assume "CHR ''/'' \<in> set (lower s)"
  then obtain c where c: "c \<in> set s" "lower_char c = CHR ''/''"
    by (auto simp: lower_def)
  from c(2) have "c = CHR ''/''" by (rule lower_char_slash)
  with c(1) assms show False by simp
qed

lemma suffix_subset: "set (suffix p) \<subseteq> set (name p)"
  by (auto simp: suffix_def Let_def dest: in_set_dropD)

lemma extension_no_slash:
  assumes "CHR ''/'' \<notin> set (name (source_path p))"
  shows "CHR ''/'' \<notin> set (extension p)"
proof -
  have "CHR ''/'' \<notin> set (suffix (source_path p))"
    using assms suffix_subset [of "source_path p"] by blast
  then have "CHR ''/'' \<notin> set (lower (suffix (source_path p)))" by (rule lower_no_slash)
  then have "CHR ''/'' \<notin> set (drop 1 (lower (suffix (source_path p))))"
    using set_drop_subset [of 1 "lower (suffix (source_path p))"] by blast
  then show ?thesis by (simp add: extension_def Let_def)
qed

section \<open>Evaluating the example pictures\<close>

lemma str_int_examples:
  "str_int 2024 = ''2024''" "str_int 3 = ''3''" "str_int 5 = ''5''" "str_int 14 = ''14''"
  "str_int 30 = ''30''" "str_int 45 = ''45''" "str_int 1 = ''1''" "str_int 2 = ''2''"
  by (simp_all add: str_int_def str_nat_small str_nat_large digit_char_def)

lemma lower_examples:
  "lower ''.jpg'' = ''.jpg''" "lower ''.JPEG'' = ''.jpeg''" "lower ''.mp4'' = ''.mp4''"
  "lower ''JPEG'' = ''jpeg''" "lower ''TIFF'' = ''tiff''"
  by (simp_all add: lower_def lower_char_def)

lemma suffix_examples:
  "suffix (in_photos ''a.jpg'') = ''.jpg''"
  "suffix (in_photos ''b.JPEG'') = ''.JPEG''"
  "suffix (in_photos ''c.mp4'') = ''.mp4''"
  by (simp_all add: suffix_def name_in_photos)

lemma extension_examples:
  "extension photo_a = ''jpg''" "extension photo_b = ''jpg''" "extension clip_c = ''mp4''"
  by (simp_all add: extension_def photo_a_def photo_b_def clip_c_def suffix_examples
        lower_examples)

lemma snap_date_examples:
  "snap_date photo_a = example_date" "snap_date photo_b = example_date"
  "snap_date clip_c = example_date\<lparr>second := 45\<rparr>"
  by (simp_all add: photo_a_def photo_b_def clip_c_def)

lemma source_path_examples:
  "source_path photo_a = in_photos ''a.jpg''" "source_path photo_b = in_photos ''b.JPEG''"
  by (simp_all add: photo_a_def photo_b_def)

lemma source_path_clip: "source_path clip_c = in_photos ''c.mp4''"
  by (simp add: clip_c_def)

lemma get_output_path_examples:
  "get_output_path example_globals photo_a 1 = path_IMG1"
  "get_output_path example_globals photo_b 1 = path_IMG1"
  "get_output_path example_globals photo_b 2 = path_IMG2"
  "get_output_path example_globals clip_c 1 = [''2024'', ''3'', ''2024-3-5-14h30m45s_VID1.mp4'']"
  unfolding get_output_path_def is_video_def extension_examples snap_date_examples
  by (simp_all add: example_date_def example_globals_fields str_int_examples
        Path_def joinpath_def path_IMG1_def path_IMG2_def)

lemma duplicate_loop_example:
  "duplicate_loop example_globals photo_b {path_IMG1} 1 = Some (2, path_IMG2)"
proof -
  have "duplicate_loop example_globals photo_b {path_IMG1} 1 =
        duplicate_loop example_globals photo_b {path_IMG1} (1 + 1)"
    by (rule duplicate_loop_used) (simp add: get_output_path_examples)
  also have "\<dots> = Some (2, path_IMG2)"
    using duplicate_loop_unused [of example_globals photo_b 2 "{path_IMG1}"]
    by (simp add: get_output_path_examples path_IMG1_def path_IMG2_def)
  finally show ?thesis .
qed

section \<open>Claims on \<open>picture.py\<close>\<close>

text \<open>
  C9. The canonical extension. For a file name \<open>stem.e\<close>, where \<open>e\<close> is not
  empty and holds no dot, the extension is \<open>e\<close> lowercased, with \<open>jpeg\<close> turned
  into \<open>jpg\<close> and \<open>tiff\<close> into \<open>tif\<close>, and any other value left as lowercased.
  A name without a dot has the empty extension.
\<close>

theorem extension_canonical:
  "(name (source_path p) = stem @ ''.'' @ e \<and> stem \<noteq> [] \<and> e \<noteq> [] \<and> CHR ''.'' \<notin> set e
      \<longrightarrow> extension p =
            (if lower e = ''jpeg'' then ''jpg''
             else if lower e = ''tiff'' then ''tif''
             else lower e)) \<and>
   (CHR ''.'' \<notin> set (name (source_path p)) \<longrightarrow> extension p = [])"
proof (intro conjI impI)
  assume a: "name (source_path p) = stem @ ''.'' @ e \<and> stem \<noteq> [] \<and> e \<noteq> [] \<and> CHR ''.'' \<notin> set e"
  then have n: "name (source_path p) = stem @ CHR ''.'' # e"
    and s: "stem \<noteq> []" "e \<noteq> []" "CHR ''.'' \<notin> set e" by simp_all
  have "suffix (source_path p) = CHR ''.'' # e" using n s by (rule suffix_of_name)
  moreover have "lower (CHR ''.'' # e) = CHR ''.'' # lower e"
    by (simp add: lower_def lower_char_def)
  ultimately show "extension p =
      (if lower e = ''jpeg'' then ''jpg'' else if lower e = ''tiff'' then ''tif'' else lower e)"
    by (simp add: extension_def)
next
  assume "CHR ''.'' \<notin> set (name (source_path p))"
  then have "suffix (source_path p) = []" by (rule suffix_no_dot)
  then show "extension p = []" by (simp add: extension_def lower_def)
qed

theorem extension_canonical_witness:
  "extension \<lparr>source_path = in_photos ''photo.JPEG'', snap_date = example_date\<rparr> = ''jpg'' \<and>
   extension \<lparr>source_path = in_photos ''clip.TIFF'', snap_date = example_date\<rparr> = ''tif'' \<and>
   extension \<lparr>source_path = in_photos ''README'', snap_date = example_date\<rparr> = []"
  using extension_canonical
          [of "\<lparr>source_path = in_photos ''photo.JPEG'', snap_date = example_date\<rparr>"
              "''photo''" "''JPEG''"]
        extension_canonical
          [of "\<lparr>source_path = in_photos ''clip.TIFF'', snap_date = example_date\<rparr>"
              "''clip''" "''TIFF''"]
        extension_canonical
          [of "\<lparr>source_path = in_photos ''README'', snap_date = example_date\<rparr>"]
  by (simp add: name_in_photos lower_examples)

text \<open>
  C7. The output path. For a picture whose file name holds no slash (as every
  \<open>pathlib\<close> name) and any counter \<open>n\<close>, \<open>get_output_path\<close> returns the three
  parts \<open>year\<close>, \<open>month\<close> and
  \<open>year-month-day-<hour>h<minute>[m<second>s]_TAGn.ext\<close>: every number is
  \<open>str\<close> of the field, which for a positive field has no leading zero; the part
  \<open>m<second>s\<close> is there exactly when \<open>second\<close> is not 0; the tag is \<open>VID\<close>
  when the canonical extension is in \<open>VIDEO_EXTENSIONS\<close> and \<open>IMG\<close> otherwise;
  \<open>ext\<close> is the canonical extension.
\<close>

theorem output_path_format:
  assumes "CHR ''/'' \<notin> set (name (source_path p))"
  shows
    "(let d = snap_date p;
          filename =
            str_int (year d) @ ''-'' @ str_int (month d) @ ''-'' @ str_int (day d) @ ''-'' @
            str_int (hour d) @ ''h'' @ str_int (minute d) @
            (if second d = 0 then [] else ''m'' @ str_int (second d) @ ''s'') @
            ''_'' @ (if extension p \<in> set (VIDEO_EXTENSIONS g) then ''VID'' else ''IMG'') @
            str_int n @ ''.'' @ extension p
      in get_output_path g p n = [str_int (year d), str_int (month d), filename] \<and>
         str_path (get_output_path g p n) =
           str_int (year d) @ ''/'' @ str_int (month d) @ ''/'' @ filename \<and>
         (0 < year d \<longrightarrow> hd (str_int (year d)) \<noteq> CHR ''0'') \<and>
         (0 < month d \<longrightarrow> hd (str_int (month d)) \<noteq> CHR ''0''))"
proof -
  have "CHR ''/'' \<notin> set (extension p)" using assms by (rule extension_no_slash)
  then have ext: "split CHR ''/'' (extension p) = [extension p]" by (rule split_no_sep)
  have parts: "get_output_path g p n =
      [str_int (year (snap_date p)), str_int (month (snap_date p)),
       filename_stem g p n @ extension p]"
    by (simp add: get_output_path_parts ext)
  have not_root: "str_int i \<noteq> ''/''" for i
    using str_int_no_slash [of i] by auto
  show ?thesis
    by (simp add: parts Let_def filename_stem_def is_video_def not_root
          str_int_no_leading_zero)
qed

theorem output_path_format_witness:
  "get_output_path example_globals photo_b 2 = [''2024'', ''3'', ''2024-3-5-14h30_IMG2.jpg''] \<and>
   str_path (get_output_path example_globals photo_b 2) = ''2024/3/2024-3-5-14h30_IMG2.jpg'' \<and>
   str_path (get_output_path example_globals clip_c 1) = ''2024/3/2024-3-5-14h30m45s_VID1.mp4''"
  using output_path_format [of photo_b example_globals 2]
        output_path_format [of clip_c example_globals 1]
  by (simp add: Let_def source_path_examples source_path_clip name_in_photos
        snap_date_examples extension_examples example_date_def example_globals_fields
        str_int_examples)

section \<open>Claims on \<open>get_path_couples\<close>\<close>

lemma assign_one_used_paths:
  "assign_one g st p = Some (couple, st') \<Longrightarrow> used_paths st' = used_paths st"
  by (auto simp: assign_one_def Let_def split: option.splits)

lemma assign_one_total:
  assumes "finite (used_paths st)"
  shows "\<exists>couple st'. assign_one g st p = Some (couple, st')"
proof -
  from duplicate_loop_terminates [OF assms, of g p 1]
  obtain r where "duplicate_loop g p (used_paths st) 1 = Some r" ..
  then show ?thesis by (cases r) (simp add: assign_one_def)
qed

lemma path_couples_loop_total:
  "finite (used_paths st) \<Longrightarrow> \<exists>r. path_couples_loop g st ps = Some r"
proof (induction ps arbitrary: st)
  case Nil
  show ?case by simp
next
  case (Cons p ps)
  from assign_one_total [OF Cons.prems, of g p]
  obtain couple st' where a: "assign_one g st p = Some (couple, st')" by blast
  then have "used_paths st' = used_paths st" by (rule assign_one_used_paths)
  with Cons.prems have "finite (used_paths st')" by simp
  then obtain r where "path_couples_loop g st' ps = Some r" using Cons.IH by blast
  with a show ?case by (cases r) simp
qed

text \<open>
  C1. The claim: the output paths of one call of \<open>get_path_couples\<close> are pairwise
  distinct, each chosen path being recorded in \<open>used_paths\<close> before the next
  picture. The code never adds to \<open>used_paths\<close>: two pictures taken in the same
  minute, \<open>a.jpg\<close> and \<open>b.JPEG\<close>, are both sent to
  \<open>2024/3/2024-3-5-14h30_IMG1.jpg\<close>.
\<close>

theorem same_output_path_twice:
  "get_path_couples example_globals [photo_a, photo_b] =
     Some [(in_photos ''a.jpg'', path_IMG1), (in_photos ''b.JPEG'', path_IMG1)] \<and>
   in_photos ''a.jpg'' \<noteq> in_photos ''b.JPEG'' \<and>
   \<not> distinct (map snd [(in_photos ''a.jpg'', path_IMG1), (in_photos ''b.JPEG'', path_IMG1)])"
  by (simp add: get_path_couples_eq get_output_path_examples source_path_examples
        in_photos_def)

text \<open>
  C2. \<open>used_paths\<close> is never added to: an iteration leaves it as it found it, so
  it is empty throughout a call of \<open>get_path_couples\<close>; the test of the
  \<open>while\<close> loop is false the first time, and every output path is the one computed
  with \<open>duplicate_count = 1\<close>.
\<close>

theorem used_paths_stays_empty:
  "(assign_one g st p = Some (couple, st') \<longrightarrow> used_paths st' = used_paths st) \<and>
   assign_one g \<lparr>used_paths = {}, CURR_PICTURE = c\<rparr> p =
     Some ((source_path p, get_output_path g p 1), \<lparr>used_paths = {}, CURR_PICTURE = None\<rparr>) \<and>
   duplicate_loop g p {} 1 = Some (1, get_output_path g p 1) \<and>
   get_path_couples g ps = Some (map (\<lambda>p. (source_path p, get_output_path g p 1)) ps)"
  by (simp add: assign_one_used_paths assign_one_empty duplicate_loop_unused
        get_path_couples_eq)

theorem used_paths_stays_empty_witness:
  "assign_one example_globals \<lparr>used_paths = {}, CURR_PICTURE = None\<rparr> photo_a =
     Some ((in_photos ''a.jpg'', path_IMG1), \<lparr>used_paths = {}, CURR_PICTURE = None\<rparr>) \<and>
   used_paths \<lparr>used_paths = {}, CURR_PICTURE = None\<rparr> = {} \<and>
   duplicate_loop example_globals photo_b {} 1 = Some (1, path_IMG1)"
  using used_paths_stays_empty
          [of example_globals "\<lparr>used_paths = {}, CURR_PICTURE = None\<rparr>" photo_a
              "(in_photos ''a.jpg'', path_IMG1)" "\<lparr>used_paths = {}, CURR_PICTURE = None\<rparr>"
              None]
        used_paths_stays_empty [of example_globals _ photo_b]
  by (simp add: get_output_path_examples source_path_examples)

text \<open>
  C10. The \<open>while\<close> loop terminates for every picture, whatever finite set of
  used paths it is run against and whatever the counter it starts from, because the
  output paths of one picture for two counters differ. So each iteration of
  \<open>get_path_couples\<close> yields a couple, and \<open>get_path_couples\<close> returns a couple
  for every picture of its input; nothing in it raises.
\<close>

theorem path_assignment_total:
  "(finite used \<longrightarrow> (\<exists>r. duplicate_loop g picture used n = Some r)) \<and>
   (finite (used_paths st) \<longrightarrow> (\<exists>r. path_couples_loop g st pictures = Some r)) \<and>
   (\<exists>couples. get_path_couples g pictures = Some couples \<and>
              length couples = length pictures)"
proof (intro conjI impI)
  assume "finite used"
  then show "\<exists>r. duplicate_loop g picture used n = Some r"
    by (rule duplicate_loop_terminates)
next
  assume "finite (used_paths st)"
  then show "\<exists>r. path_couples_loop g st pictures = Some r"
    by (rule path_couples_loop_total)
next
  show "\<exists>couples. get_path_couples g pictures = Some couples \<and>
                   length couples = length pictures"
    by (simp add: get_path_couples_eq)
qed

theorem path_assignment_total_witness:
  "finite {path_IMG1} \<and>
   (\<exists>r. duplicate_loop example_globals photo_b {path_IMG1} 1 = Some r) \<and>
   (\<exists>r. path_couples_loop example_globals \<lparr>used_paths = {path_IMG1}, CURR_PICTURE = None\<rparr>
           [photo_a, photo_b] = Some r)"
  using path_assignment_total
          [of "{path_IMG1}" example_globals photo_b 1
              "\<lparr>used_paths = {path_IMG1}, CURR_PICTURE = None\<rparr>" "[photo_a, photo_b]"]
  by simp

end
